theory Spec2Isabelle
  imports Complex_Main "HOL-Library.AList" "HOL-Library.Sublist" "HOL-Library.Multiset"
begin

section \<open>JavaScript values\<close>

text \<open>
  The server handles untyped JSON. Numbers are modelled exactly: a finite number is a
  rational, and the three special values of the number type are kept. The rounding and
  the overflow of IEEE doubles are not part of the model.
\<close>

datatype jsnum = Fin rat | NaN | PInf | NInf

datatype jv =
    Undefined
  | Null
  | Bool bool
  | Num jsnum
  | Str string
  | Arr "jv list"
  | Obj "(string \<times> jv) list"

type_synonym obj = "(string \<times> jv) list"

text \<open>Property read \<open>o.k\<close> on an object: a missing property reads as \<open>undefined\<close>.\<close>

definition fld :: "obj \<Rightarrow> string \<Rightarrow> jv" where
  "fld ob k = (case map_of ob k of None \<Rightarrow> Undefined | Some v \<Rightarrow> v)"

text \<open>
  Property read on any value that is neither \<open>null\<close> nor \<open>undefined\<close>. The handlers read
  only the names amount, type, category, description, date, period, transactions and
  budgets this way; strings, arrays, numbers and booleans have none of them.
\<close>

fun js_prop :: "jv \<Rightarrow> string \<Rightarrow> jv" where
  "js_prop (Obj kvs) k = fld kvs k"
| "js_prop _ k = Undefined"

text \<open>
  An object literal \<open>{...base, k1: v1, ..., kn: vn}\<close>: the listed properties are assigned
  in order over the copied ones.
\<close>

definition obj_assign :: "obj \<Rightarrow> (string \<times> jv) list \<Rightarrow> obj" where
  "obj_assign base kvs = fold (\<lambda>(k, v). AList.update k v) kvs base"

fun show_nat :: "nat \<Rightarrow> string" where
  "show_nat n =
     (if n < 10 then [char_of (48 + n)]
      else show_nat (n div 10) @ [char_of (48 + n mod 10)])"

declare show_nat.simps [simp del]

text \<open>
  The own enumerable properties that a spread \<open>{...x}\<close> copies: those of an object, the
  indexed elements of an array, the indexed characters of a string, and nothing for the
  other values.
\<close>

fun spread :: "jv \<Rightarrow> obj" where
  "spread (Obj kvs) = kvs"
| "spread (Arr xs) = zip (map show_nat [0..<length xs]) xs"
| "spread (Str s) = zip (map show_nat [0..<length s]) (map (\<lambda>c. Str [c]) s)"
| "spread _ = []"

text \<open>What \<open>for (const x of v)\<close> iterates over; \<open>None\<close> is the TypeError of a value that is not iterable.\<close>

fun iterate :: "jv \<Rightarrow> jv list option" where
  "iterate (Arr xs) = Some xs"
| "iterate (Str s) = Some (map (\<lambda>c. Str [c]) s)"
| "iterate _ = None"

text \<open>\<open>v.length\<close> of a value that was iterated.\<close>

fun js_length :: "jv \<Rightarrow> jv" where
  "js_length (Arr xs) = Num (Fin (of_nat (length xs)))"
| "js_length (Str s) = Num (Fin (of_nat (length s)))"
| "js_length _ = Undefined"

text \<open>
  Strict equality \<open>a === b\<close> of two values read from different JSON documents: objects and
  arrays are then never the same reference, and \<open>NaN\<close> differs from itself.
\<close>

fun js_seq :: "jv \<Rightarrow> jv \<Rightarrow> bool" where
  "js_seq Undefined Undefined = True"
| "js_seq Null Null = True"
| "js_seq (Bool a) (Bool b) = (a = b)"
| "js_seq (Num a) (Num b) = (a \<noteq> NaN \<and> a = b)"
| "js_seq (Str a) (Str b) = (a = b)"
| "js_seq _ _ = False"

subsection \<open>Arithmetic\<close>

fun num_add :: "jsnum \<Rightarrow> jsnum \<Rightarrow> jsnum" where
  "num_add (Fin a) (Fin b) = Fin (a + b)"
| "num_add NaN _ = NaN"
| "num_add _ NaN = NaN"
| "num_add PInf NInf = NaN"
| "num_add NInf PInf = NaN"
| "num_add PInf _ = PInf"
| "num_add _ PInf = PInf"
| "num_add NInf _ = NInf"
| "num_add _ NInf = NInf"

fun num_neg :: "jsnum \<Rightarrow> jsnum" where
  "num_neg (Fin a) = Fin (- a)"
| "num_neg NaN = NaN"
| "num_neg PInf = NInf"
| "num_neg NInf = PInf"

definition num_sub :: "jsnum \<Rightarrow> jsnum \<Rightarrow> jsnum" where
  "num_sub a b = num_add a (num_neg b)"

text \<open>
  \<open>ToNumber\<close> on the values where it needs no parsing. On a string, an array or an object
  the conversion goes through the value's text, which this model does not cover:
  \<open>None\<close> marks an operation outside the model.
\<close>

fun to_number :: "jv \<Rightarrow> jsnum option" where
  "to_number Undefined = Some NaN"
| "to_number Null = Some (Fin 0)"
| "to_number (Bool b) = Some (Fin (if b then 1 else 0))"
| "to_number (Num n) = Some n"
| "to_number _ = None"

text \<open>\<open>a + b\<close>: numeric addition unless an operand is a string, an array or an object (then
  JavaScript concatenates texts, outside the model).\<close>

definition js_add :: "jv \<Rightarrow> jv \<Rightarrow> jv option" where
  "js_add a b =
     (case (to_number a, to_number b) of
        (Some x, Some y) \<Rightarrow> Some (Num (num_add x y))
      | _ \<Rightarrow> None)"

definition js_sub :: "jv \<Rightarrow> jv \<Rightarrow> jv option" where
  "js_sub a b =
     (case (to_number a, to_number b) of
        (Some x, Some y) \<Rightarrow> Some (Num (num_sub x y))
      | _ \<Rightarrow> None)"

text \<open>A value inside a template literal: only a string is covered (numbers would need
  their printed form).\<close>

fun template :: "jv \<Rightarrow> string option" where
  "template (Str s) = Some s"
| "template _ = None"

subsection \<open>parseFloat\<close>

definition is_ws :: "char \<Rightarrow> bool" where
  "is_ws c = (c \<in> set [CHR 0x20, CHR 0x09, CHR 0x0A, CHR 0x0B, CHR 0x0C, CHR 0x0D])"

definition is_digit :: "char \<Rightarrow> bool" where
  "is_digit c = (c \<in> set ''0123456789'')"

definition digits_val :: "string \<Rightarrow> nat" where
  "digits_val ds = foldl (\<lambda>a c. 10 * a + (of_char c - 48)) 0 ds"

definition scale10 :: "rat \<Rightarrow> int \<Rightarrow> rat" where
  "scale10 x e = (if 0 \<le> e then x * 10 ^ nat e else x / 10 ^ nat (- e))"

text \<open>The exponent part of a decimal literal, if the text starts with a complete one.\<close>

definition exponent :: "string \<Rightarrow> int" where
  "exponent s =
     (case s of
        [] \<Rightarrow> 0
      | e # r \<Rightarrow>
          if e = CHR ''e'' \<or> e = CHR ''E'' then
            (case r of
               [] \<Rightarrow> 0
             | sg # r' \<Rightarrow>
                 if sg = CHR ''-'' then
                   (if takeWhile is_digit r' = [] then 0 else - int (digits_val (takeWhile is_digit r')))
                 else if sg = CHR ''+'' then int (digits_val (takeWhile is_digit r'))
                 else int (digits_val (takeWhile is_digit r)))
          else 0)"

text \<open>The longest prefix of the text that is a decimal literal, after leading white space.\<close>

definition parse_decimal :: "string \<Rightarrow> jsnum" where
  "parse_decimal s =
     (let s1 = dropWhile is_ws s;
          neg = (s1 \<noteq> [] \<and> hd s1 = CHR ''-'');
          s2 = (if s1 \<noteq> [] \<and> (hd s1 = CHR ''-'' \<or> hd s1 = CHR ''+'') then tl s1 else s1)
      in if prefix ''Infinity'' s2 then (if neg then NInf else PInf)
         else
           let ip = takeWhile is_digit s2;
               r1 = dropWhile is_digit s2;
               fp = (if r1 \<noteq> [] \<and> hd r1 = CHR ''.'' then takeWhile is_digit (tl r1) else []);
               r2 = (if r1 \<noteq> [] \<and> hd r1 = CHR ''.'' then dropWhile is_digit (tl r1) else r1)
           in if ip = [] \<and> fp = [] then NaN
              else
                let m = scale10 (of_nat (digits_val (ip @ fp))) (exponent r2 - int (length fp))
                in Fin (if neg then - m else m))"

text \<open>
  \<open>parseFloat(v)\<close> parses the text of \<open>v\<close>. A number prints to a text that parses back to
  it; the text of an array starts with the text of its first element, followed by a comma
  or the end; the texts of the other values start no decimal literal.
\<close>

fun parseFloat :: "jv \<Rightarrow> jsnum" where
  "parseFloat (Num n) = n"
| "parseFloat (Str s) = parse_decimal s"
| "parseFloat (Arr (x # xs)) = parseFloat x"
| "parseFloat _ = NaN"

section \<open>The world: key-value table, identity provider, clock and randomness\<close>

datatype auth_reply = AuthReply (reply_user_id: "string option") (reply_error: bool)

text \<open>
  The world of a request. The table of the key-value store is an association list with
  one row per key; the values are objects, as every write of the handlers stores an
  object literal. Field \<open>kv_down\<close> says which operations of the store, counted by
  \<open>kv_ops\<close>, find it unavailable. The other fields are the answers of the environment:
  the identity provider's reply to an access token, the successive results of the
  random-plus-timestamp token of \<open>generateId\<close>, and the successive readings of the clock.
\<close>

record world =
  rows :: "(string \<times> obj) list"
  kv_ops :: nat
  kv_down :: "nat \<Rightarrow> bool"
  auth :: "string \<Rightarrow> auth_reply"
  id_supply :: "nat \<Rightarrow> string"
  ids_used :: nat
  clock :: "nat \<Rightarrow> string"
  clock_reads :: nat

text \<open>
  The result of a step of a handler: a value, a thrown exception, or an operation of
  JavaScript that the model does not cover.
\<close>

datatype 'a res = Ok 'a | Throw | Beyond

type_synonym 'a io = "world \<Rightarrow> 'a res \<times> world"

definition returnM :: "'a \<Rightarrow> 'a io" where
  "returnM x w = (Ok x, w)"

definition bindM :: "'a io \<Rightarrow> ('a \<Rightarrow> 'b io) \<Rightarrow> 'b io" where
  "bindM m f w =
     (case m w of
        (Ok x, w') \<Rightarrow> f x w'
      | (Throw, w') \<Rightarrow> (Throw, w')
      | (Beyond, w') \<Rightarrow> (Beyond, w'))"

definition or_throw :: "'a option \<Rightarrow> 'a io" where
  "or_throw v w = (case v of None \<Rightarrow> (Throw, w) | Some x \<Rightarrow> (Ok x, w))"

definition or_beyond :: "'a option \<Rightarrow> 'a io" where
  "or_beyond v w = (case v of None \<Rightarrow> (Beyond, w) | Some x \<Rightarrow> (Ok x, w))"

definition tick :: "world \<Rightarrow> world" where
  "tick w = w\<lparr>kv_ops := Suc (kv_ops w)\<rparr>"

text \<open>
  Modelled from the spec: the module \<open>kv_store.tsx\<close> that the server imports (\<open>get\<close>,
  \<open>set\<close>, \<open>del\<close>, \<open>getByPrefix\<close>) is not among the sources. Section 4.2 of the
  specification gives \<open>get(key)\<close> a value or absent, \<open>set(key, value)\<close> and
  \<open>delete(key)\<close> success or failure, and \<open>scanByPrefix(prefix)\<close> the sequence of the
  values whose key starts with the prefix, in no specified order (here: the order of the
  table); every operation fails only when the store is unavailable, and the failure
  reaches the caller as an exception. The next five definitions follow these words. A
  value is kept as it was written: the encoding of the values by the real store is not
  described by the specification and is not modelled.
\<close>

text \<open>Modelled from the spec: the values of the rows whose key starts with the prefix.\<close>

definition scan :: "string \<Rightarrow> (string \<times> obj) list \<Rightarrow> obj list" where
  "scan p rs = map snd (filter (\<lambda>(k, v). prefix p k) rs)"

text \<open>Modelled from the spec: \<open>kv.get(key)\<close>, the value stored under the key, or absent.\<close>

definition kv_get :: "string \<Rightarrow> obj option io" where
  "kv_get k w =
     (if kv_down w (kv_ops w) then (Throw, tick w)
      else (Ok (map_of (rows w) k), tick w))"

text \<open>Modelled from the spec: \<open>kv.set(key, value)\<close> writes the row of the key, new or not.\<close>

definition kv_set :: "string \<Rightarrow> obj \<Rightarrow> unit io" where
  "kv_set k v w =
     (if kv_down w (kv_ops w) then (Throw, tick w)
      else (Ok (), tick (w\<lparr>rows := AList.update k v (rows w)\<rparr>)))"

text \<open>Modelled from the spec: \<open>kv.del(key)\<close> removes the row of the key, if there is one.\<close>

definition kv_del :: "string \<Rightarrow> unit io" where
  "kv_del k w =
     (if kv_down w (kv_ops w) then (Throw, tick w)
      else (Ok (), tick (w\<lparr>rows := AList.delete k (rows w)\<rparr>)))"

text \<open>Modelled from the spec: \<open>kv.getByPrefix(prefix)\<close>, the prefix scan.\<close>

definition kv_getByPrefix :: "string \<Rightarrow> obj list io" where
  "kv_getByPrefix p w =
     (if kv_down w (kv_ops w) then (Throw, tick w)
      else (Ok (scan p (rows w)), tick w))"

section \<open>Requests and responses\<close>

text \<open>
  A request carries its Authorization header if it has one, the \<open>:id\<close> segment of its
  path, and its body parsed as JSON (\<open>None\<close> when the body is not JSON, where
  \<open>c.req.json()\<close> throws).
\<close>

record request =
  authorization :: "string option"
  param_id :: string
  body :: "jv option"

text \<open>\<open>Resp s b\<close> is \<open>c.json(b, s)\<close>. \<open>Unmodelled\<close> is the outcome of a handler that met an
  operation outside the model.\<close>

datatype response = Resp nat jv | Unmodelled

definition error_body :: "string \<Rightarrow> jv" where
  "error_body msg = Obj [(''error'', Str msg)]"

definition unauthorized :: response where
  "unauthorized = Resp 401 (error_body ''Unauthorized'')"

text \<open>The \<open>try { ... } catch\<close> around every handler.\<close>

definition catch :: "string \<Rightarrow> response io \<Rightarrow> world \<Rightarrow> response \<times> world" where
  "catch msg m w =
     (case m w of
        (Ok r, w') \<Rightarrow> (r, w')
      | (Throw, w') \<Rightarrow> (Resp 500 (error_body msg), w')
      | (Beyond, w') \<Rightarrow> (Unmodelled, w'))"

subsection \<open>Helpers of the server\<close>

text \<open>\<open>s.split(' ')\<close>\<close>

fun split_spaces :: "string \<Rightarrow> string list" where
  "split_spaces [] = [[]]"
| "split_spaces (c # cs) =
     (if c = CHR '' '' then [] # split_spaces cs
      else (case split_spaces cs of
              [] \<Rightarrow> [[c]]
            | p # ps \<Rightarrow> (c # p) # ps))"

definition getUserId :: "request \<Rightarrow> world \<Rightarrow> string option" where
  "getUserId req w =
     (case authorization req of
        None \<Rightarrow> None
      | Some h \<Rightarrow>
          (case split_spaces h of
             _ # accessToken # _ \<Rightarrow>
               if accessToken = [] then None
               else
                 (case auth w accessToken of
                    AuthReply uid err \<Rightarrow>
                      if err then None
                      else (case uid of
                              None \<Rightarrow> None
                            | Some u \<Rightarrow> if u = [] then None else Some u))
           | _ \<Rightarrow> None))"

definition generateId :: "string io" where
  "generateId w =
     (Ok (''txn_'' @ id_supply w (ids_used w)), w\<lparr>ids_used := Suc (ids_used w)\<rparr>)"

text \<open>\<open>new Date().toISOString()\<close>\<close>

definition now :: "string io" where
  "now w = (Ok (clock w (clock_reads w)), w\<lparr>clock_reads := Suc (clock_reads w)\<rparr>)"

definition req_json :: "request \<Rightarrow> jv io" where
  "req_json req = or_throw (body req)"

text \<open>Destructuring \<open>const { ... } = v\<close> throws on \<open>null\<close> and \<open>undefined\<close>.\<close>

fun destructure :: "jv \<Rightarrow> (string \<Rightarrow> jv) io" where
  "destructure Null = or_throw None"
| "destructure Undefined = or_throw None"
| "destructure v = returnM (js_prop v)"

definition txPrefix :: "string \<Rightarrow> string" where
  "txPrefix userId = ''transaction:'' @ userId @ '':''"

definition txKey :: "string \<Rightarrow> string \<Rightarrow> string" where
  "txKey userId eid = ''transaction:'' @ userId @ '':'' @ eid"

definition budgetPrefix :: "string \<Rightarrow> string" where
  "budgetPrefix userId = ''budget:'' @ userId @ '':''"

definition budgetKey :: "string \<Rightarrow> string \<Rightarrow> string" where
  "budgetKey userId eid = ''budget:'' @ userId @ '':'' @ eid"

text \<open>
  \<open>updateBudgetSpending(userId, category, amount)\<close>: it scans the user's budgets, looks for
  one of the category and does nothing with it; its own \<open>try/catch\<close> swallows a failure
  of the scan. Its third argument is never read, and the model leaves it out.
\<close>

definition updateBudgetSpending :: "string \<Rightarrow> jv \<Rightarrow> unit io" where
  "updateBudgetSpending userId category w =
     (case kv_getByPrefix (budgetPrefix userId) w of
        (Ok budgets, w') \<Rightarrow>
          (case find (\<lambda>b. js_seq (fld b ''category'') category) budgets of
             Some budget \<Rightarrow> (Ok (), w')
           | None \<Rightarrow> (Ok (), w'))
      | (_, w') \<Rightarrow> (Ok (), w'))"

section \<open>The handlers\<close>

subsection \<open>Transactions\<close>

definition get_transactions :: "request \<Rightarrow> world \<Rightarrow> response \<times> world" where
  "get_transactions req w =
     catch ''Failed to fetch transactions''
       (case getUserId req w of
          None \<Rightarrow> returnM unauthorized
        | Some userId \<Rightarrow>
            bindM (kv_getByPrefix (txPrefix userId)) (\<lambda>transactions.
            returnM (Resp 200 (Arr (map Obj transactions))))) w"

definition post_transactions :: "request \<Rightarrow> world \<Rightarrow> response \<times> world" where
  "post_transactions req w =
     catch ''Failed to create transaction''
       (case getUserId req w of
          None \<Rightarrow> returnM unauthorized
        | Some userId \<Rightarrow>
            bindM (req_json req) (\<lambda>b.
            bindM (destructure b) (\<lambda>f.
            bindM generateId (\<lambda>tid.
            bindM now (\<lambda>createdAt.
              let transaction =
                    [(''id'', Str tid),
                     (''amount'', Num (parseFloat (f ''amount''))),
                     (''type'', f ''type''),
                     (''category'', f ''category''),
                     (''description'', f ''description''),
                     (''date'', f ''date''),
                     (''userId'', Str userId),
                     (''createdAt'', Str createdAt)]
              in
            bindM (kv_set (txKey userId tid) transaction) (\<lambda>_.
            bindM (if js_seq (f ''type'') (Str ''expense'')
                   then updateBudgetSpending userId (f ''category'')
                   else returnM ()) (\<lambda>_.
            returnM (Resp 200 (Obj transaction))))))))) w"

definition put_transactions :: "request \<Rightarrow> world \<Rightarrow> response \<times> world" where
  "put_transactions req w =
     catch ''Failed to update transaction''
       (case getUserId req w of
          None \<Rightarrow> returnM unauthorized
        | Some userId \<Rightarrow>
            bindM (req_json req) (\<lambda>b.
            bindM (destructure b) (\<lambda>f.
            bindM (kv_get (txKey userId (param_id req))) (\<lambda>existing.
              case existing of
                None \<Rightarrow> returnM (Resp 404 (error_body ''Transaction not found''))
              | Some existingTransaction \<Rightarrow>
                  bindM now (\<lambda>updatedAt.
                    let updatedTransaction =
                          obj_assign existingTransaction
                            [(''amount'', Num (parseFloat (f ''amount''))),
                             (''type'', f ''type''),
                             (''category'', f ''category''),
                             (''description'', f ''description''),
                             (''date'', f ''date''),
                             (''updatedAt'', Str updatedAt)]
                    in
                  bindM (kv_set (txKey userId (param_id req)) updatedTransaction) (\<lambda>_.
                  bindM (if js_seq (fld existingTransaction ''type'') (Str ''expense'')
                         then updateBudgetSpending userId (fld existingTransaction ''category'')
                         else returnM ()) (\<lambda>_.
                  bindM (if js_seq (f ''type'') (Str ''expense'')
                         then updateBudgetSpending userId (f ''category'')
                         else returnM ()) (\<lambda>_.
                  returnM (Resp 200 (Obj updatedTransaction)))))))))) w"

definition delete_transactions :: "request \<Rightarrow> world \<Rightarrow> response \<times> world" where
  "delete_transactions req w =
     catch ''Failed to delete transaction''
       (case getUserId req w of
          None \<Rightarrow> returnM unauthorized
        | Some userId \<Rightarrow>
            bindM (kv_get (txKey userId (param_id req))) (\<lambda>existing.
              case existing of
                None \<Rightarrow> returnM (Resp 404 (error_body ''Transaction not found''))
              | Some existingTransaction \<Rightarrow>
                  bindM (kv_del (txKey userId (param_id req))) (\<lambda>_.
                  bindM (if js_seq (fld existingTransaction ''type'') (Str ''expense'')
                         then updateBudgetSpending userId (fld existingTransaction ''category'')
                         else returnM ()) (\<lambda>_.
                  returnM (Resp 200 (Obj [(''success'', Bool True)])))))) w"

subsection \<open>Budgets\<close>

text \<open>\<open>transactions.filter(...).reduce((sum, t) => sum + t.amount, 0)\<close>\<close>

fun reduce_amounts :: "jv \<Rightarrow> obj list \<Rightarrow> jv option" where
  "reduce_amounts acc [] = Some acc"
| "reduce_amounts acc (t # ts) =
     (case js_add acc (fld t ''amount'') of
        None \<Rightarrow> None
      | Some s \<Rightarrow> reduce_amounts s ts)"

definition categorySpending :: "obj list \<Rightarrow> obj \<Rightarrow> jv option" where
  "categorySpending transactions budget =
     reduce_amounts (Num (Fin 0))
       (filter (\<lambda>t. js_seq (fld t ''type'') (Str ''expense'')
                   \<and> js_seq (fld t ''category'') (fld budget ''category''))
          transactions)"

definition withSpending :: "obj list \<Rightarrow> obj \<Rightarrow> jv option" where
  "withSpending transactions budget =
     (case categorySpending transactions budget of
        None \<Rightarrow> None
      | Some spent \<Rightarrow>
          (case js_sub (fld budget ''amount'') spent of
             None \<Rightarrow> None
           | Some remaining \<Rightarrow>
               Some (Obj (obj_assign budget [(''spent'', spent), (''remaining'', remaining)]))))"

definition get_budgets :: "request \<Rightarrow> world \<Rightarrow> response \<times> world" where
  "get_budgets req w =
     catch ''Failed to fetch budgets''
       (case getUserId req w of
          None \<Rightarrow> returnM unauthorized
        | Some userId \<Rightarrow>
            bindM (kv_getByPrefix (budgetPrefix userId)) (\<lambda>budgets.
            bindM (kv_getByPrefix (txPrefix userId)) (\<lambda>transactions.
            bindM (or_beyond (those (map (withSpending transactions) budgets))) (\<lambda>budgetsWithSpending.
            returnM (Resp 200 (Arr budgetsWithSpending)))))) w"

definition post_budgets :: "request \<Rightarrow> world \<Rightarrow> response \<times> world" where
  "post_budgets req w =
     catch ''Failed to create budget''
       (case getUserId req w of
          None \<Rightarrow> returnM unauthorized
        | Some userId \<Rightarrow>
            bindM (req_json req) (\<lambda>b.
            bindM (destructure b) (\<lambda>f.
            bindM generateId (\<lambda>bid.
            bindM now (\<lambda>createdAt.
              let budget =
                    [(''id'', Str bid),
                     (''category'', f ''category''),
                     (''amount'', Num (parseFloat (f ''amount''))),
                     (''period'', f ''period''),
                     (''userId'', Str userId),
                     (''createdAt'', Str createdAt)]
              in
            bindM (kv_set (budgetKey userId bid) budget) (\<lambda>_.
            returnM (Resp 200 (Obj budget)))))))) w"

definition put_budgets :: "request \<Rightarrow> world \<Rightarrow> response \<times> world" where
  "put_budgets req w =
     catch ''Failed to update budget''
       (case getUserId req w of
          None \<Rightarrow> returnM unauthorized
        | Some userId \<Rightarrow>
            bindM (req_json req) (\<lambda>b.
            bindM (destructure b) (\<lambda>f.
            bindM (kv_get (budgetKey userId (param_id req))) (\<lambda>existing.
              case existing of
                None \<Rightarrow> returnM (Resp 404 (error_body ''Budget not found''))
              | Some existingBudget \<Rightarrow>
                  bindM now (\<lambda>updatedAt.
                    let updatedBudget =
                          obj_assign existingBudget
                            [(''category'', f ''category''),
                             (''amount'', Num (parseFloat (f ''amount''))),
                             (''period'', f ''period''),
                             (''updatedAt'', Str updatedAt)]
                    in
                  bindM (kv_set (budgetKey userId (param_id req)) updatedBudget) (\<lambda>_.
                  returnM (Resp 200 (Obj updatedBudget)))))))) w"

definition delete_budgets :: "request \<Rightarrow> world \<Rightarrow> response \<times> world" where
  "delete_budgets req w =
     catch ''Failed to delete budget''
       (case getUserId req w of
          None \<Rightarrow> returnM unauthorized
        | Some userId \<Rightarrow>
            bindM (kv_get (budgetKey userId (param_id req))) (\<lambda>existing.
              case existing of
                None \<Rightarrow> returnM (Resp 404 (error_body ''Budget not found''))
              | Some existingBudget \<Rightarrow>
                  bindM (kv_del (budgetKey userId (param_id req))) (\<lambda>_.
                  returnM (Resp 200 (Obj [(''success'', Bool True)]))))) w"

subsection \<open>Export, import and account deletion\<close>

definition export_data :: "request \<Rightarrow> world \<Rightarrow> response \<times> world" where
  "export_data req w =
     catch ''Failed to export data''
       (case getUserId req w of
          None \<Rightarrow> returnM unauthorized
        | Some userId \<Rightarrow>
            bindM (kv_getByPrefix (txPrefix userId)) (\<lambda>transactions.
            bindM (kv_getByPrefix (budgetPrefix userId)) (\<lambda>budgets.
            bindM now (\<lambda>exportDate.
            returnM (Resp 200 (Obj
              [(''transactions'', Arr (map Obj transactions)),
               (''budgets'', Arr (map Obj budgets)),
               (''exportDate'', Str exportDate),
               (''version'', Str ''1.0'')])))))) w"

text \<open>The body of the two \<open>for\<close> loops of the import, for the key of one kind.\<close>

fun import_items :: "(string \<Rightarrow> string) \<Rightarrow> string \<Rightarrow> jv list \<Rightarrow> unit io" where
  "import_items key userId [] = returnM ()"
| "import_items key userId (item # items) =
     bindM generateId (\<lambda>nid.
     bindM now (\<lambda>importedAt.
       let newItem =
             obj_assign (spread item)
               [(''id'', Str nid), (''userId'', Str userId), (''importedAt'', Str importedAt)]
       in
     bindM (kv_set (key nid) newItem) (\<lambda>_.
     import_items key userId items)))"

text \<open>A destructuring default \<open>{ k = [] }\<close> applies when the property is \<open>undefined\<close>.\<close>

definition with_default :: "jv \<Rightarrow> jv" where
  "with_default v = (if v = Undefined then Arr [] else v)"

definition import_data :: "request \<Rightarrow> world \<Rightarrow> response \<times> world" where
  "import_data req w =
     catch ''Failed to import data''
       (case getUserId req w of
          None \<Rightarrow> returnM unauthorized
        | Some userId \<Rightarrow>
            bindM (req_json req) (\<lambda>b.
            bindM (destructure b) (\<lambda>f.
              let transactions = with_default (f ''transactions'');
                  budgets = with_default (f ''budgets'')
              in
            bindM (or_throw (iterate transactions)) (\<lambda>ts.
            bindM (import_items (txKey userId) userId ts) (\<lambda>_.
            bindM (or_throw (iterate budgets)) (\<lambda>bs.
            bindM (import_items (budgetKey userId) userId bs) (\<lambda>_.
            returnM (Resp 200 (Obj
              [(''success'', Bool True),
               (''imported'', Obj
                  [(''transactions'', js_length transactions),
                   (''budgets'', js_length budgets)])]))))))))) w"

text \<open>The two \<open>for\<close> loops of the account deletion, for the key of one kind.\<close>

fun delete_items :: "(string \<Rightarrow> string) \<Rightarrow> obj list \<Rightarrow> unit io" where
  "delete_items key [] = returnM ()"
| "delete_items key (item # items) =
     bindM (or_beyond (template (fld item ''id''))) (\<lambda>iid.
     bindM (kv_del (key iid)) (\<lambda>_.
     delete_items key items))"

definition delete_account :: "request \<Rightarrow> world \<Rightarrow> response \<times> world" where
  "delete_account req w =
     catch ''Failed to delete account data''
       (case getUserId req w of
          None \<Rightarrow> returnM unauthorized
        | Some userId \<Rightarrow>
            bindM (kv_getByPrefix (txPrefix userId)) (\<lambda>transactions.
            bindM (kv_getByPrefix (budgetPrefix userId)) (\<lambda>budgets.
            bindM (delete_items (txKey userId) transactions) (\<lambda>_.
            bindM (delete_items (budgetKey userId) budgets) (\<lambda>_.
            returnM (Resp 200 (Obj [(''success'', Bool True)]))))))) w"

section \<open>Notions used by the properties\<close>

text \<open>The routes that ask for a bearer credential: all but signup and health.\<close>

definition protected_routes :: "(request \<Rightarrow> world \<Rightarrow> response \<times> world) list" where
  "protected_routes =
     [get_transactions, post_transactions, put_transactions, delete_transactions,
      get_budgets, post_budgets, put_budgets, delete_budgets,
      export_data, import_data, delete_account]"

text \<open>The rows of the table that hold budgets.\<close>

definition budget_rows :: "(string \<times> obj) list \<Rightarrow> (string \<times> obj) list" where
  "budget_rows rs = filter (\<lambda>(k, v). prefix ''budget:'' k) rs"

subsection \<open>A concrete world and concrete requests\<close>

text \<open>
  An empty table that is always available, an identity provider that knows three access
  tokens, and counters for the generated tokens and the clock.
\<close>

definition w0 :: world where
  "w0 = \<lparr>rows = [], kv_ops = 0, kv_down = (\<lambda>_. False),
          auth = (\<lambda>t. if t = ''tokA'' then AuthReply (Some ''alice'') False
                      else if t = ''tokB'' then AuthReply (Some ''bob'') False
                      else if t = ''tokC'' then AuthReply (Some ''alice:2'') False
                      else AuthReply None True),
          id_supply = show_nat, ids_used = 0,
          clock = (\<lambda>n. ''T'' @ show_nat n), clock_reads = 0\<rparr>"

definition anonymous :: request where
  "anonymous = \<lparr>authorization = None, param_id = ''txn_0'', body = Some (Obj [])\<rparr>"

definition bob_creates :: request where
  "bob_creates = \<lparr>authorization = Some ''Bearer tokB'', param_id = [],
     body = Some (Obj [(''amount'', Num (Fin 50)), (''type'', Str ''expense''),
                       (''category'', Str ''Food''), (''description'', Str ''lunch''),
                       (''date'', Str ''2024-01-05'')])\<rparr>"

text \<open>The world after Bob has created his first transaction, stored under \<open>transaction:bob:txn_0\<close>.\<close>

definition w_bob :: world where
  "w_bob = snd (post_transactions bob_creates w0)"

definition alice_updates :: request where
  "alice_updates = \<lparr>authorization = Some ''Bearer tokA'', param_id = ''txn_0'',
     body = Some (Obj [(''amount'', Num (Fin 60)), (''type'', Str ''expense''),
                       (''category'', Str ''Food''), (''description'', Str ''dinner''),
                       (''date'', Str ''2024-01-06'')])\<rparr>"

definition bob_updates :: request where
  "bob_updates = \<lparr>authorization = Some ''Bearer tokB'', param_id = ''txn_0'',
     body = Some (Obj [(''amount'', Str ''12.5''), (''type'', Str ''income''),
                       (''category'', Str ''Gift''), (''date'', Str ''2024-01-07'')])\<rparr>"

definition spend_negative :: request where
  "spend_negative = \<lparr>authorization = Some ''Bearer tokA'', param_id = [],
     body = Some (Obj [(''amount'', Num (Fin (- 5))), (''type'', Str ''expense''),
                       (''category'', Str ''Food''), (''description'', Str ''refund''),
                       (''date'', Str ''2024-01-05'')])\<rparr>"

subsection \<open>Ownership of the stored entities\<close>

text \<open>
  A row is owned consistently when the \<open>userId\<close> field of its value is a string \<open>u\<close> and
  its key starts with \<open>transaction:u:\<close> or \<open>budget:u:\<close>.
\<close>

definition owner_ok :: "string \<Rightarrow> obj \<Rightarrow> bool" where
  "owner_ok k v =
     (case fld v ''userId'' of
        Str u \<Rightarrow> prefix (txPrefix u) k \<or> prefix (budgetPrefix u) k
      | _ \<Rightarrow> False)"

definition owner_inv :: "(string \<times> obj) list \<Rightarrow> bool" where
  "owner_inv rs = list_all (\<lambda>(k, v). owner_ok k v) rs"

text \<open>The properties that an update of a transaction assigns.\<close>

definition replaced_fields :: "string set" where
  "replaced_fields =
     {''amount'', ''type'', ''category'', ''description'', ''date'', ''updatedAt''}"

subsection \<open>Budget aggregation, as the specification words it\<close>

text \<open>
  Addition of numbers is associative and commutative with zero as its unit, so the sum of
  a list of numbers does not depend on their order.
\<close>

instantiation jsnum :: comm_monoid_add
begin

definition zero_jsnum :: jsnum where
  "zero_jsnum = Fin 0"

definition plus_jsnum :: "jsnum \<Rightarrow> jsnum \<Rightarrow> jsnum" where
  "plus_jsnum = num_add"

instance
proof
  fix a b c :: jsnum
  show "a + b + c = a + (b + c)"
    unfolding plus_jsnum_def by (cases a; cases b; cases c) simp_all
  show "a + b = b + a"
    unfolding plus_jsnum_def by (cases a; cases b) simp_all
  show "0 + a = a"
    unfolding plus_jsnum_def zero_jsnum_def by (cases a) simp_all
qed

end

text \<open>The amount of an entity whose amount is a number.\<close>

definition amount_of :: "obj \<Rightarrow> jsnum" where
  "amount_of e = (case fld e ''amount'' of Num n \<Rightarrow> n | _ \<Rightarrow> NaN)"

text \<open>
  \<open>spent = sum of amount over transactions where direction == expense and category ==
  budget.category\<close>, and \<open>remaining = budget.limit - spent\<close>.
\<close>

definition spec_spent :: "obj list \<Rightarrow> obj \<Rightarrow> jsnum" where
  "spec_spent transactions budget =
     sum_list (map amount_of
       (filter (\<lambda>t. fld t ''type'' = Str ''expense'' \<and> fld t ''category'' = fld budget ''category'')
          transactions))"





subsection \<open>The scenario of the Food budget\<close>

definition alice_budget_food :: request where
  "alice_budget_food = \<lparr>authorization = Some ''Bearer tokA'', param_id = [],
     body = Some (Obj [(''category'', Str ''Food''), (''amount'', Num (Fin 200)),
                       (''period'', Str ''monthly'')])\<rparr>"

definition alice_food_50 :: request where
  "alice_food_50 = \<lparr>authorization = Some ''Bearer tokA'', param_id = [],
     body = Some (Obj [(''amount'', Num (Fin 50)), (''type'', Str ''expense''),
                       (''category'', Str ''Food''), (''description'', Str ''groceries''),
                       (''date'', Str ''2024-01-05'')])\<rparr>"




text \<open>The worlds after the budget, the first expense, the second expense, and the deletion of the first.\<close>

definition s1 :: world where
  "s1 = snd (post_budgets alice_budget_food w0)"

definition s2 :: world where
  "s2 = snd (post_transactions alice_food_50 s1)"




subsection \<open>User identifiers and the key space\<close>




subsection \<open>What an import writes\<close>

text \<open>
  The row that the import writes for the item of index \<open>i\<close>, counted over both loops: the
  key is built from the \<open>i\<close>-th identifier generated from now on, and the value is the
  item with \<open>id\<close>, \<open>userId\<close> and \<open>importedAt\<close> assigned.
\<close>

definition imported_row :: "(string \<Rightarrow> string) \<Rightarrow> string \<Rightarrow> world \<Rightarrow> nat \<Rightarrow> jv \<Rightarrow> string \<times> obj" where
  "imported_row key userId w i item =
     (key (''txn_'' @ id_supply w (ids_used w + i)),
      obj_assign (spread item)
        [(''id'', Str (''txn_'' @ id_supply w (ids_used w + i))),
         (''userId'', Str userId),
         (''importedAt'', Str (clock w (clock_reads w + i)))])"

definition imported_rows ::
  "(string \<Rightarrow> string) \<Rightarrow> string \<Rightarrow> world \<Rightarrow> nat \<Rightarrow> jv list \<Rightarrow> (string \<times> obj) list" where
  "imported_rows key userId w off items =
     map (\<lambda>i. imported_row key userId w (off + i) (items ! i)) [0..<length items]"

text \<open>Writing a list of rows into the table, one \<open>set\<close> after the other.\<close>

definition upsert_all :: "(string \<times> obj) list \<Rightarrow> (string \<times> obj) list \<Rightarrow> (string \<times> obj) list" where
  "upsert_all new rs = fold (\<lambda>(k, v). AList.update k v) new rs"

text \<open>The body of the answer to a successful import.\<close>

definition import_ok :: "nat \<Rightarrow> nat \<Rightarrow> jv" where
  "import_ok n m =
     Obj [(''success'', Bool True),
          (''imported'', Obj [(''transactions'', Num (Fin (of_nat n))),
                              (''budgets'', Num (Fin (of_nat m)))])]"



definition alice_imports :: request where
  "alice_imports = \<lparr>authorization = Some ''Bearer tokA'', param_id = [],
     body = Some (Obj
       [(''transactions'', Arr
           [Obj [(''id'', Str ''txn_old''), (''userId'', Str ''bob''),
                 (''amount'', Num (Fin 5)), (''type'', Str ''expense''),
                 (''category'', Str ''Food'')]]),
        (''budgets'', Arr
           [Obj [(''id'', Str ''b1''), (''category'', Str ''Food''),
                 (''amount'', Num (Fin 100)), (''period'', Str ''weekly'')]])])\<rparr>"



section \<open>Properties\<close>

subsection \<open>The steps of a handler, as equations\<close>

lemma destructure_eq:
  "destructure b w = (if b = Null \<or> b = Undefined then (Throw, w) else (Ok (js_prop b), w))"
  by (cases b) (simp_all add: or_throw_def returnM_def)

lemma updateBudgetSpending_eq: "updateBudgetSpending u c w = (Ok (), tick w)"
  by (simp add: updateBudgetSpending_def kv_getByPrefix_def split: option.splits)

lemmas io_defs = catch_def bindM_def returnM_def or_throw_def or_beyond_def req_json_def
  kv_get_def kv_set_def kv_del_def kv_getByPrefix_def generateId_def now_def tick_def
  destructure_eq updateBudgetSpending_eq

lemma getUserId_no_header: "authorization req = None \<Longrightarrow> getUserId req w = None"
  by (simp add: getUserId_def)

subsection \<open>Rows that an update or a deletion leaves alone\<close>

lemma filter_update_other:
  "(\<And>v'. \<not> P (k, v')) \<Longrightarrow> filter P (AList.update k v rs) = filter P rs"
  by (induction rs) auto

lemma filter_delete_other:
  "(\<And>v'. \<not> P (k, v')) \<Longrightarrow> filter P (AList.delete k rs) = filter P rs"
  by (induction rs) (auto simp: AList.delete_eq)

lemma budget_rows_update_tx [simp]:
  "budget_rows (AList.update (txKey u i) v rs) = budget_rows rs"
  unfolding budget_rows_def by (rule filter_update_other) (simp add: txKey_def)

lemma budget_rows_delete_tx [simp]:
  "budget_rows (AList.delete (txKey u i) rs) = budget_rows rs"
  unfolding budget_rows_def by (rule filter_delete_other) (simp add: txKey_def)

subsection \<open>Unauthenticated requests\<close>

text \<open>
  Claim C3. On every protected route, a request whose identity cannot be resolved (the
  Authorization header is missing, or \<open>getUserId\<close> returns null) is answered with status
  401 and the body \<open>{error: "Unauthorized"}\<close>, and the world is the one before the
  request: no store operation was issued and no row changed.
\<close>

theorem unauthenticated_request_is_rejected:
  assumes "authorization req = None \<or> getUserId req w = None"
  shows "\<forall>h \<in> set protected_routes.
           h req w = (Resp 401 (Obj [(''error'', Str ''Unauthorized'')]), w)"
proof -
  from assms have "getUserId req w = None"
    by (auto simp: getUserId_no_header)
  then show ?thesis
    by (simp add: protected_routes_def get_transactions_def post_transactions_def
        put_transactions_def delete_transactions_def get_budgets_def post_budgets_def
        put_budgets_def delete_budgets_def export_data_def import_data_def
        delete_account_def unauthorized_def error_body_def catch_def returnM_def)
qed

theorem unauthenticated_request_is_rejected_witness:
  "authorization anonymous = None
   \<and> get_transactions anonymous w0 = (Resp 401 (Obj [(''error'', Str ''Unauthorized'')]), w0)
   \<and> put_transactions anonymous w0 = (Resp 401 (Obj [(''error'', Str ''Unauthorized'')]), w0)
   \<and> import_data anonymous w0 = (Resp 401 (Obj [(''error'', Str ''Unauthorized'')]), w0)
   \<and> delete_account anonymous w0 = (Resp 401 (Obj [(''error'', Str ''Unauthorized'')]), w0)"
  using unauthenticated_request_is_rejected [of anonymous w0]
  by (simp add: anonymous_def protected_routes_def)

subsection \<open>Transaction mutations and the stored budgets\<close>

text \<open>
  Claim C8. \<open>updateBudgetSpending\<close> changes no row of the table, and creating, updating or
  deleting a transaction (an expense or not, whatever the outcome of the request) leaves
  the rows stored under the keys that start with \<open>budget:\<close> exactly as they were.
\<close>

theorem transaction_mutation_keeps_budget_rows:
  "rows (snd (updateBudgetSpending userId category w)) = rows w
   \<and> budget_rows (rows (snd (post_transactions req w))) = budget_rows (rows w)
   \<and> budget_rows (rows (snd (put_transactions req w))) = budget_rows (rows w)
   \<and> budget_rows (rows (snd (delete_transactions req w))) = budget_rows (rows w)"
  by (simp add: post_transactions_def put_transactions_def delete_transactions_def
      io_defs Let_def split: option.splits)

subsection \<open>Updating or deleting a transaction that is not stored\<close>

text \<open>
  Claim C4. Let the caller be authenticated and let no transaction be stored under
  \<open>transaction:userId:id\<close> (the id was never created, or it is another user's). Then PUT
  and DELETE leave the table unchanged and never answer with a success; when the store
  answers the lookup, DELETE answers 404 \<open>{error: "Transaction not found"}\<close>, and so does
  PUT when its body is JSON other than null (the handler reads the body before the lookup).
\<close>

theorem missing_transaction_is_not_found:
  assumes "getUserId req w = Some userId"
      and "map_of (rows w) (txKey userId (param_id req)) = None"
  shows "rows (snd (put_transactions req w)) = rows w
       \<and> rows (snd (delete_transactions req w)) = rows w
       \<and> (\<forall>r. fst (put_transactions req w) \<noteq> Resp 200 r)
       \<and> (\<forall>r. fst (delete_transactions req w) \<noteq> Resp 200 r)
       \<and> (\<not> kv_down w (kv_ops w) \<longrightarrow>
            fst (delete_transactions req w)
              = Resp 404 (Obj [(''error'', Str ''Transaction not found'')]))
       \<and> (\<not> kv_down w (kv_ops w) \<longrightarrow>
            (\<exists>b. body req = Some b \<and> b \<noteq> Null \<and> b \<noteq> Undefined) \<longrightarrow>
            fst (put_transactions req w)
              = Resp 404 (Obj [(''error'', Str ''Transaction not found'')]))"
  using assms
  by (auto simp add: put_transactions_def delete_transactions_def io_defs error_body_def
      split: option.splits)

theorem missing_transaction_is_not_found_witness:
  "getUserId alice_updates w_bob = Some ''alice''
   \<and> map_of (rows w_bob) ''transaction:bob:txn_0'' \<noteq> None
   \<and> map_of (rows w_bob) (txKey ''alice'' (param_id alice_updates)) = None
   \<and> fst (put_transactions alice_updates w_bob)
       = Resp 404 (Obj [(''error'', Str ''Transaction not found'')])
   \<and> fst (delete_transactions alice_updates w_bob)
       = Resp 404 (Obj [(''error'', Str ''Transaction not found'')])
   \<and> rows (snd (put_transactions alice_updates w_bob)) = rows w_bob
   \<and> rows (snd (delete_transactions alice_updates w_bob)) = rows w_bob"
proof -
  have auth: "getUserId alice_updates w_bob = Some ''alice''"
    by code_simp
  have bobs: "map_of (rows w_bob) ''transaction:bob:txn_0'' \<noteq> None"
    by code_simp
  have missing: "map_of (rows w_bob) (txKey ''alice'' (param_id alice_updates)) = None"
    by code_simp
  have up: "\<not> kv_down w_bob (kv_ops w_bob)"
    by code_simp
  have json: "\<exists>b. body alice_updates = Some b \<and> b \<noteq> Null \<and> b \<noteq> Undefined"
    by (simp add: alice_updates_def)
  from missing_transaction_is_not_found [OF auth missing] auth bobs missing up json
  show ?thesis by blast
qed

subsection \<open>Updating a stored transaction\<close>

text \<open>
  Claim C10. A successful update of a stored transaction (the caller is authenticated,
  the body is JSON other than null, the transaction is stored under the caller's key,
  and the store serves the lookup and the write) answers 200 with the merged entity and
  stores it under the same key. The merged entity has the fields \<open>id\<close>, \<open>userId\<close>,
  \<open>createdAt\<close> and every other field outside amount, type, category, description, date
  and updatedAt as they were; those six are assigned from the body (a field that the
  body lacks becomes \<open>undefined\<close>) and from the clock. No other key changes.
\<close>

theorem update_transaction_merges:
  assumes "getUserId req w = Some userId"
      and "body req = Some b" and "b \<noteq> Null" and "b \<noteq> Undefined"
      and "map_of (rows w) (txKey userId (param_id req)) = Some existing"
      and "\<not> kv_down w (kv_ops w)" and "\<not> kv_down w (Suc (kv_ops w))"
  shows "\<exists>updated.
           fst (put_transactions req w) = Resp 200 (Obj updated)
         \<and> map_of (rows (snd (put_transactions req w))) (txKey userId (param_id req))
             = Some updated
         \<and> fld updated ''id'' = fld existing ''id''
         \<and> fld updated ''userId'' = fld existing ''userId''
         \<and> fld updated ''createdAt'' = fld existing ''createdAt''
         \<and> (\<forall>k. k \<notin> replaced_fields \<longrightarrow> fld updated k = fld existing k)
         \<and> fld updated ''amount'' = Num (parseFloat (js_prop b ''amount''))
         \<and> fld updated ''type'' = js_prop b ''type''
         \<and> fld updated ''category'' = js_prop b ''category''
         \<and> fld updated ''description'' = js_prop b ''description''
         \<and> fld updated ''date'' = js_prop b ''date''
         \<and> fld updated ''updatedAt'' = Str (clock w (clock_reads w))
         \<and> (\<forall>k. k \<noteq> txKey userId (param_id req) \<longrightarrow>
               map_of (rows (snd (put_transactions req w))) k = map_of (rows w) k)"
  using assms
  by (simp add: put_transactions_def io_defs Let_def obj_assign_def fld_def
      AList.update_conv' replaced_fields_def)

theorem update_transaction_merges_witness:
  "getUserId bob_updates w_bob = Some ''bob''
   \<and> map_of (rows w_bob) (txKey ''bob'' (param_id bob_updates))
       = Some [(''id'', Str ''txn_0''), (''amount'', Num (Fin 50)),
               (''type'', Str ''expense''), (''category'', Str ''Food''),
               (''description'', Str ''lunch''), (''date'', Str ''2024-01-05''),
               (''userId'', Str ''bob''), (''createdAt'', Str ''T0'')]
   \<and> rows (snd (put_transactions bob_updates w_bob))
       = [(''transaction:bob:txn_0'',
           [(''id'', Str ''txn_0''), (''amount'', Num (Fin (25 / 2))),
            (''type'', Str ''income''), (''category'', Str ''Gift''),
            (''description'', Undefined), (''date'', Str ''2024-01-07''),
            (''userId'', Str ''bob''), (''createdAt'', Str ''T0''),
            (''updatedAt'', Str ''T1'')])]
   \<and> (\<exists>updated. fst (put_transactions bob_updates w_bob) = Resp 200 (Obj updated)
         \<and> fld updated ''id'' = Str ''txn_0'' \<and> fld updated ''userId'' = Str ''bob''
         \<and> fld updated ''createdAt'' = Str ''T0'')"
proof -
  have auth: "getUserId bob_updates w_bob = Some ''bob''"
    by code_simp
  have stored: "map_of (rows w_bob) (txKey ''bob'' (param_id bob_updates))
       = Some [(''id'', Str ''txn_0''), (''amount'', Num (Fin 50)),
               (''type'', Str ''expense''), (''category'', Str ''Food''),
               (''description'', Str ''lunch''), (''date'', Str ''2024-01-05''),
               (''userId'', Str ''bob''), (''createdAt'', Str ''T0'')]"
    by code_simp
  have after: "rows (snd (put_transactions bob_updates w_bob))
       = [(''transaction:bob:txn_0'',
           [(''id'', Str ''txn_0''), (''amount'', Num (Fin (25 / 2))),
            (''type'', Str ''income''), (''category'', Str ''Gift''),
            (''description'', Undefined), (''date'', Str ''2024-01-07''),
            (''userId'', Str ''bob''), (''createdAt'', Str ''T0''),
            (''updatedAt'', Str ''T1'')])]"
    by code_simp
  have up: "\<not> kv_down w_bob (kv_ops w_bob)" "\<not> kv_down w_bob (Suc (kv_ops w_bob))"
    by code_simp+
  have json: "body bob_updates = Some (Obj [(''amount'', Str ''12.5''), (''type'', Str ''income''),
                       (''category'', Str ''Gift''), (''date'', Str ''2024-01-07'')])"
    by (simp add: bob_updates_def)
  from update_transaction_merges [OF auth json _ _ stored up]
  obtain updated where
    "fst (put_transactions bob_updates w_bob) = Resp 200 (Obj updated)"
    "fld updated ''id'' = Str ''txn_0''" "fld updated ''userId'' = Str ''bob''"
    "fld updated ''createdAt'' = Str ''T0''"
    by (auto simp: fld_def)
  with auth stored after show ?thesis by blast
qed

subsection \<open>The sign of a stored amount\<close>

text \<open>
  Claim C6, as stated, fails: the handlers store \<open>parseFloat(amount)\<close> without looking at
  its sign. A request to create an expense of amount \<open>-5\<close> is accepted, and the stored
  transaction has the amount \<open>-5\<close>.
\<close>

theorem negative_amount_is_stored_negative:
  "fst (post_transactions spend_negative w0) =
     Resp 200 (Obj [(''id'', Str ''txn_0''), (''amount'', Num (Fin (- 5))),
         (''type'', Str ''expense''), (''category'', Str ''Food''),
         (''description'', Str ''refund''), (''date'', Str ''2024-01-05''),
         (''userId'', Str ''alice''), (''createdAt'', Str ''T0'')])
   \<and> map_of (rows (snd (post_transactions spend_negative w0))) ''transaction:alice:txn_0'' =
     Some [(''id'', Str ''txn_0''), (''amount'', Num (Fin (- 5))),
         (''type'', Str ''expense''), (''category'', Str ''Food''),
         (''description'', Str ''refund''), (''date'', Str ''2024-01-05''),
         (''userId'', Str ''alice''), (''createdAt'', Str ''T0'')]"
  by code_simp

text \<open>
  Claim C6, amended. A transaction that create or update accepts is stored with the
  amount \<open>parseFloat\<close> of the amount of the request body, whatever its sign: a number in
  the body is stored as it is. The direction flag is stored beside it, as sent.
\<close>

theorem stored_amount_is_parsed_amount:
  assumes "getUserId req w = Some userId"
      and "body req = Some b" and "b \<noteq> Null" and "b \<noteq> Undefined"
      and "\<not> kv_down w (kv_ops w)"
  shows "(\<exists>t. fst (post_transactions req w) = Resp 200 (Obj t)
            \<and> map_of (rows (snd (post_transactions req w)))
                 (txKey userId (''txn_'' @ id_supply w (ids_used w))) = Some t
            \<and> fld t ''amount'' = Num (parseFloat (js_prop b ''amount''))
            \<and> fld t ''type'' = js_prop b ''type'')
       \<and> (\<forall>existing.
            map_of (rows w) (txKey userId (param_id req)) = Some existing \<longrightarrow>
            \<not> kv_down w (Suc (kv_ops w)) \<longrightarrow>
            (\<exists>t. fst (put_transactions req w) = Resp 200 (Obj t)
               \<and> map_of (rows (snd (put_transactions req w)))
                    (txKey userId (param_id req)) = Some t
               \<and> fld t ''amount'' = Num (parseFloat (js_prop b ''amount''))
               \<and> fld t ''type'' = js_prop b ''type''))
       \<and> (\<forall>n. js_prop b ''amount'' = Num n \<longrightarrow> parseFloat (js_prop b ''amount'') = n)"
  using assms
  by (simp add: post_transactions_def put_transactions_def io_defs Let_def obj_assign_def
      fld_def AList.update_conv')

theorem stored_amount_is_parsed_amount_witness:
  "getUserId spend_negative w0 = Some ''alice''
   \<and> body spend_negative \<noteq> None
   \<and> \<not> kv_down w0 (kv_ops w0)
   \<and> js_prop (the (body spend_negative)) ''amount'' = Num (Fin (- 5))
   \<and> (\<exists>t. fst (post_transactions spend_negative w0) = Resp 200 (Obj t)
         \<and> fld t ''amount'' = Num (Fin (- 5)) \<and> fld t ''type'' = Str ''expense'')"
proof -
  have auth: "getUserId spend_negative w0 = Some ''alice''"
    by code_simp
  have json: "body spend_negative = Some (Obj [(''amount'', Num (Fin (- 5))), (''type'', Str ''expense''),
                       (''category'', Str ''Food''), (''description'', Str ''refund''),
                       (''date'', Str ''2024-01-05'')])"
    by (simp add: spend_negative_def)
  have up: "\<not> kv_down w0 (kv_ops w0)"
    by (simp add: w0_def)
  from stored_amount_is_parsed_amount [OF auth json _ _ up]
  have "\<exists>t. fst (post_transactions spend_negative w0) = Resp 200 (Obj t)
         \<and> fld t ''amount'' = Num (Fin (- 5)) \<and> fld t ''type'' = Str ''expense''"
    by (auto simp: fld_def)
  with auth json up show ?thesis by (simp add: fld_def)
qed

subsection \<open>Every stored entity carries the user of its key\<close>

lemma owner_inv_update:
  "owner_inv rs \<Longrightarrow> owner_ok k v \<Longrightarrow> owner_inv (AList.update k v rs)"
  unfolding owner_inv_def by (induction rs) auto

lemma owner_inv_delete: "owner_inv rs \<Longrightarrow> owner_inv (AList.delete k rs)"
  unfolding owner_inv_def by (induction rs) (auto simp: AList.delete_eq)

lemma owner_inv_lookup: "owner_inv rs \<Longrightarrow> map_of rs k = Some v \<Longrightarrow> owner_ok k v"
  unfolding owner_inv_def by (auto simp: list_all_iff dest: map_of_SomeD)

lemma owner_ok_tx_new: "fld v ''userId'' = Str u \<Longrightarrow> owner_ok (txKey u i) v"
  by (simp add: owner_ok_def txKey_def txPrefix_def)

lemma owner_ok_budget_new: "fld v ''userId'' = Str u \<Longrightarrow> owner_ok (budgetKey u i) v"
  by (simp add: owner_ok_def budgetKey_def budgetPrefix_def)

lemma owner_ok_same_userId:
  "fld v' ''userId'' = fld v ''userId'' \<Longrightarrow> owner_ok k v \<Longrightarrow> owner_ok k v'"
  by (simp add: owner_ok_def)

lemma owner_inv_put:
  "owner_inv rs \<Longrightarrow> map_of rs k = Some ex \<Longrightarrow> fld v ''userId'' = fld ex ''userId''
    \<Longrightarrow> owner_inv (AList.update k v rs)"
  by (rule owner_inv_update, assumption, rule owner_ok_same_userId, assumption,
      rule owner_inv_lookup)

lemma inv_post_tx: "owner_inv (rows w) \<Longrightarrow> owner_inv (rows (snd (post_transactions req w)))"
  by (auto simp add: post_transactions_def io_defs Let_def fld_def
      intro!: owner_inv_update owner_ok_tx_new split: option.splits)

lemma inv_put_tx: "owner_inv (rows w) \<Longrightarrow> owner_inv (rows (snd (put_transactions req w)))"
  by (auto simp add: put_transactions_def io_defs Let_def obj_assign_def fld_def
      AList.update_conv' intro: owner_inv_put split: option.splits)

lemma inv_del_tx: "owner_inv (rows w) \<Longrightarrow> owner_inv (rows (snd (delete_transactions req w)))"
  by (auto simp add: delete_transactions_def io_defs intro!: owner_inv_delete
      split: option.splits)

lemma inv_post_b: "owner_inv (rows w) \<Longrightarrow> owner_inv (rows (snd (post_budgets req w)))"
  by (auto simp add: post_budgets_def io_defs Let_def fld_def
      intro!: owner_inv_update owner_ok_budget_new split: option.splits)

lemma inv_put_b: "owner_inv (rows w) \<Longrightarrow> owner_inv (rows (snd (put_budgets req w)))"
  by (auto simp add: put_budgets_def io_defs Let_def obj_assign_def fld_def
      AList.update_conv' intro: owner_inv_put split: option.splits)

lemma inv_del_b: "owner_inv (rows w) \<Longrightarrow> owner_inv (rows (snd (delete_budgets req w)))"
  by (auto simp add: delete_budgets_def io_defs intro!: owner_inv_delete split: option.splits)

lemma inv_import_items:
  "owner_inv (rows w) \<Longrightarrow> (\<And>i v. fld v ''userId'' = Str u \<Longrightarrow> owner_ok (key i) v)
    \<Longrightarrow> owner_inv (rows (snd (import_items key u items w)))"
proof (induction items arbitrary: w)
  case Nil
  then show ?case by (simp add: returnM_def)
next
  case (Cons item items)
  show ?case
  proof (cases "kv_down w (kv_ops w)")
    case True
    then show ?thesis using Cons.prems(1) by (simp add: io_defs Let_def)
  next
    case False
    have "owner_inv (AList.update (key (''txn_'' @ id_supply w (ids_used w)))
            (obj_assign (spread item)
               [(''id'', Str (''txn_'' @ id_supply w (ids_used w))), (''userId'', Str u),
                (''importedAt'', Str (clock w (clock_reads w)))]) (rows w))"
      by (rule owner_inv_update [OF Cons.prems(1)], rule Cons.prems(2))
         (simp add: obj_assign_def fld_def AList.update_conv')
    then show ?thesis using False Cons.prems(2)
      by (simp add: io_defs Let_def Cons.IH)
  qed
qed

lemma inv_import_items_run:
  "import_items (txKey u) u items w = (r, w') \<Longrightarrow> owner_inv (rows w) \<Longrightarrow> owner_inv (rows w')"
  "import_items (budgetKey u) u items w = (r, w') \<Longrightarrow> owner_inv (rows w) \<Longrightarrow> owner_inv (rows w')"
  using inv_import_items [of w u "txKey u" items] inv_import_items [of w u "budgetKey u" items]
  by (auto simp: owner_ok_tx_new owner_ok_budget_new)

lemma inv_import: "owner_inv (rows w) \<Longrightarrow> owner_inv (rows (snd (import_data req w)))"
  by (auto simp add: import_data_def catch_def bindM_def returnM_def or_throw_def req_json_def
      destructure_eq Let_def split: option.splits prod.splits res.splits
      dest: inv_import_items_run)

lemma inv_delete_items:
  "owner_inv (rows w) \<Longrightarrow> owner_inv (rows (snd (delete_items key items w)))"
proof (induction items arbitrary: w)
  case Nil
  then show ?case by (simp add: returnM_def)
next
  case (Cons item items)
  then show ?case
    by (auto simp add: io_defs owner_inv_delete split: option.splits)
qed

lemma inv_delete_items_run:
  "delete_items key items w = (r, w') \<Longrightarrow> owner_inv (rows w) \<Longrightarrow> owner_inv (rows w')"
  using inv_delete_items [of w key items] by simp

lemma inv_delete_account:
  "owner_inv (rows w) \<Longrightarrow> owner_inv (rows (snd (delete_account req w)))"
  by (auto simp add: delete_account_def catch_def bindM_def returnM_def kv_getByPrefix_def
      tick_def split: option.splits prod.splits res.splits if_splits
      dest: inv_delete_items_run)

lemma reads_keep_rows:
  "rows (snd (get_transactions req w)) = rows w"
  "rows (snd (get_budgets req w)) = rows w"
  "rows (snd (export_data req w)) = rows w"
  by (simp_all add: get_transactions_def get_budgets_def export_data_def io_defs
      split: option.splits)

text \<open>
  Claim C9. If every row of the table has a value whose \<open>userId\<close> field is the user of
  the key's prefix, then so has every row after any request to any protected route:
  create and import write the caller's identifier under a key of the caller, and an
  update writes back the stored \<open>userId\<close> under the key it was read from. The empty table
  has the property.
\<close>

theorem stored_entities_carry_their_owner:
  assumes "owner_inv (rows w)"
  shows "\<forall>h \<in> set protected_routes. owner_inv (rows (snd (h req w)))"
  using assms
  by (simp add: protected_routes_def inv_post_tx inv_put_tx inv_del_tx inv_post_b inv_put_b
      inv_del_b inv_import inv_delete_account reads_keep_rows)

theorem stored_entities_carry_their_owner_witness:
  "owner_inv (rows w_bob)
   \<and> rows w_bob \<noteq> []
   \<and> owner_inv (rows (snd (put_transactions bob_updates w_bob)))
   \<and> owner_inv (rows (snd (post_budgets bob_creates w_bob)))
   \<and> owner_inv (rows (snd (import_data bob_creates w_bob)))"
proof -
  have start: "owner_inv (rows w_bob)"
    by code_simp
  have nonempty: "rows w_bob \<noteq> []"
    by code_simp
  from stored_entities_carry_their_owner [OF start] start nonempty
  show ?thesis by (simp add: protected_routes_def)
qed

subsection \<open>Budget aggregation\<close>


lemma js_seq_Str [simp]: "js_seq x (Str s) \<longleftrightarrow> x = Str s"
  by (cases x) auto






lemma spec_spent_unordered:
  "mset ts = mset ts' \<Longrightarrow> spec_spent ts b = spec_spent ts' b"
proof -
  have "spec_spent xs b = sum_mset (image_mset amount_of
          (filter_mset (\<lambda>t. fld t ''type'' = Str ''expense'' \<and> fld t ''category'' = fld b ''category'') (mset xs)))"
    for xs
    unfolding spec_spent_def by (simp flip: sum_mset_sum_list)
  then show "mset ts = mset ts' \<Longrightarrow> spec_spent ts b = spec_spent ts' b"
    by simp
qed




subsection \<open>A request changes only rows under the caller's prefixes\<close>











subsection \<open>Prefix scans and the users' key spaces\<close>











subsection \<open>Import\<close>

lemma imported_rows_Nil [simp]: "imported_rows key u w off [] = []"
  by (simp add: imported_rows_def)

lemma imported_rows_Cons:
  "imported_rows key u w off (item # items)
     = imported_row key u w off item # imported_rows key u w (Suc off) items"
proof -
  have "[0..<length (item # items)] = 0 # map Suc [0..<length items]"
    by (simp add: upt_conv_Cons map_Suc_upt del: upt_Suc)
  then show ?thesis
    by (simp add: imported_rows_def comp_def del: upt_Suc)
qed

lemma imported_rows_later:
  assumes "id_supply w1 = id_supply w" and "clock w1 = clock w"
      and "ids_used w1 = ids_used w + d" and "clock_reads w1 = clock_reads w + d"
  shows "imported_rows key u w1 off items = imported_rows key u w (d + off) items"
  using assms by (simp add: imported_rows_def imported_row_def add.assoc)

lemma import_items_run:
  assumes "\<forall>n < length items. \<not> kv_down w (kv_ops w + n)"
  shows "import_items key u items w =
           (Ok (), w\<lparr>rows := upsert_all (imported_rows key u w 0 items) (rows w),
                     kv_ops := kv_ops w + length items,
                     ids_used := ids_used w + length items,
                     clock_reads := clock_reads w + length items\<rparr>)"
  using assms
proof (induction items arbitrary: w)
  case Nil
  then show ?case by (simp add: returnM_def upsert_all_def)
next
  case (Cons item items)
  let ?nid = "''txn_'' @ id_supply w (ids_used w)"
  let ?row = "obj_assign (spread item)
        [(''id'', Str ?nid), (''userId'', Str u), (''importedAt'', Str (clock w (clock_reads w)))]"
  let ?w1 = "w\<lparr>ids_used := Suc (ids_used w), clock_reads := Suc (clock_reads w),
               rows := AList.update (key ?nid) ?row (rows w), kv_ops := Suc (kv_ops w)\<rparr>"
  from Cons.prems have up0: "\<not> kv_down w (kv_ops w)"
    by auto
  from Cons.prems have up1: "\<forall>n < length items. \<not> kv_down ?w1 (kv_ops ?w1 + n)"
    by auto
  have step: "import_items key u (item # items) w = import_items key u items ?w1"
    using up0 by (simp add: io_defs Let_def)
  show ?case
    unfolding step Cons.IH [OF up1] imported_rows_Cons
    by (simp add: imported_rows_def imported_row_def upsert_all_def)
qed


lemma import_data_run:
  assumes caller: "getUserId req w = Some userId"
      and json: "body req = Some b"
      and ts: "js_prop b ''transactions'' = Arr ts"
      and bs: "js_prop b ''budgets'' = Arr bs"
      and up: "\<forall>n < length ts + length bs. \<not> kv_down w (kv_ops w + n)"
  shows "import_data req w =
           (Resp 200 (import_ok (length ts) (length bs)),
            w\<lparr>rows := upsert_all (imported_rows (budgetKey userId) userId w (length ts) bs)
                       (upsert_all (imported_rows (txKey userId) userId w 0 ts) (rows w)),
              kv_ops := kv_ops w + length ts + length bs,
              ids_used := ids_used w + length ts + length bs,
              clock_reads := clock_reads w + length ts + length bs\<rparr>)"
proof -
  let ?w1 = "w\<lparr>rows := upsert_all (imported_rows (txKey userId) userId w 0 ts) (rows w),
                kv_ops := kv_ops w + length ts,
                ids_used := ids_used w + length ts,
                clock_reads := clock_reads w + length ts\<rparr>"
  from ts have nn: "b \<noteq> Null" "b \<noteq> Undefined"
    by auto
  from up have up1: "\<forall>n < length ts. \<not> kv_down w (kv_ops w + n)"
    by auto
  from up have up2: "\<forall>n < length bs. \<not> kv_down ?w1 (kv_ops ?w1 + n)"
    by (auto simp: add.assoc)
  have later: "imported_rows (budgetKey userId) userId ?w1 0 bs
      = imported_rows (budgetKey userId) userId w (length ts) bs"
    by (simp add: imported_rows_def imported_row_def add.assoc)
  show ?thesis
    using caller json nn ts bs
    by (simp add: import_data_def catch_def bindM_def returnM_def or_throw_def req_json_def
        destructure_eq Let_def with_default_def import_items_run [OF up1]
        import_items_run [OF up2] later import_ok_def)
qed

lemma w_bob_is_up: "\<not> kv_down w_bob n"
  by code_simp

text \<open>
  Claim C7. An import by an authenticated caller whose body has the arrays
  \<open>transactions\<close> (of \<open>n\<close> items) and \<open>budgets\<close> (of \<open>m\<close> items), with the store
  available for the \<open>n + m\<close> writes, answers 200 with
  \<open>{success: true, imported: {transactions: n, budgets: m}}\<close>. It writes one row per
  item, in order: the key is \<open>kind:caller:id\<close> where \<open>id\<close> is the next generated
  identifier, and the value is the item with \<open>id\<close> set to that identifier, \<open>userId\<close>
  set to the caller and \<open>importedAt\<close> set, whatever \<open>id\<close> and \<open>userId\<close> the item
  carried; every other field of the item is kept.
\<close>

theorem import_writes_new_entities_for_caller:
  assumes "getUserId req w = Some userId"
      and "body req = Some b"
      and "js_prop b ''transactions'' = Arr ts"
      and "js_prop b ''budgets'' = Arr bs"
      and "\<forall>n < length ts + length bs. \<not> kv_down w (kv_ops w + n)"
  shows "fst (import_data req w) = Resp 200 (import_ok (length ts) (length bs))
       \<and> rows (snd (import_data req w))
           = upsert_all (imported_rows (txKey userId) userId w 0 ts
                         @ imported_rows (budgetKey userId) userId w (length ts) bs) (rows w)
       \<and> (\<forall>i < length ts.
            \<exists>v. imported_rows (txKey userId) userId w 0 ts ! i
                  = (txKey userId (''txn_'' @ id_supply w (ids_used w + i)), v)
              \<and> fld v ''id'' = Str (''txn_'' @ id_supply w (ids_used w + i))
              \<and> fld v ''userId'' = Str userId
              \<and> (\<forall>k. k \<notin> {''id'', ''userId'', ''importedAt''} \<longrightarrow>
                     fld v k = fld (spread (ts ! i)) k))
       \<and> (\<forall>i < length bs.
            \<exists>v. imported_rows (budgetKey userId) userId w (length ts) bs ! i
                  = (budgetKey userId (''txn_'' @ id_supply w (ids_used w + length ts + i)), v)
              \<and> fld v ''id'' = Str (''txn_'' @ id_supply w (ids_used w + length ts + i))
              \<and> fld v ''userId'' = Str userId
              \<and> (\<forall>k. k \<notin> {''id'', ''userId'', ''importedAt''} \<longrightarrow>
                     fld v k = fld (spread (bs ! i)) k))"
  using import_data_run [OF assms]
  by (simp add: upsert_all_def imported_rows_def imported_row_def obj_assign_def fld_def
      AList.update_conv' add.assoc)


theorem import_writes_new_entities_for_caller_witness:
  "getUserId alice_imports w_bob = Some ''alice''
   \<and> fst (import_data alice_imports w_bob) = Resp 200 (import_ok 1 1)
   \<and> rows (snd (import_data alice_imports w_bob)) =
       [(''transaction:bob:txn_0'',
         [(''id'', Str ''txn_0''), (''amount'', Num (Fin 50)),
          (''type'', Str ''expense''), (''category'', Str ''Food''),
          (''description'', Str ''lunch''), (''date'', Str ''2024-01-05''),
          (''userId'', Str ''bob''), (''createdAt'', Str ''T0'')]),
        (''transaction:alice:txn_1'',
         [(''id'', Str ''txn_1''), (''userId'', Str ''alice''),
          (''amount'', Num (Fin 5)), (''type'', Str ''expense''),
          (''category'', Str ''Food''), (''importedAt'', Str ''T1'')]),
        (''budget:alice:txn_2'',
         [(''id'', Str ''txn_2''), (''category'', Str ''Food''),
          (''amount'', Num (Fin 100)), (''period'', Str ''weekly''),
          (''userId'', Str ''alice''), (''importedAt'', Str ''T2'')])]"
proof -
  have caller: "getUserId alice_imports w_bob = Some ''alice''"
    by code_simp
  have json: "body alice_imports = Some (Obj
       [(''transactions'', Arr
           [Obj [(''id'', Str ''txn_old''), (''userId'', Str ''bob''),
                 (''amount'', Num (Fin 5)), (''type'', Str ''expense''),
                 (''category'', Str ''Food'')]]),
        (''budgets'', Arr
           [Obj [(''id'', Str ''b1''), (''category'', Str ''Food''),
                 (''amount'', Num (Fin 100)), (''period'', Str ''weekly'')]])])"
    by (simp add: alice_imports_def)
  have after: "rows (snd (import_data alice_imports w_bob)) =
       [(''transaction:bob:txn_0'',
         [(''id'', Str ''txn_0''), (''amount'', Num (Fin 50)),
          (''type'', Str ''expense''), (''category'', Str ''Food''),
          (''description'', Str ''lunch''), (''date'', Str ''2024-01-05''),
          (''userId'', Str ''bob''), (''createdAt'', Str ''T0'')]),
        (''transaction:alice:txn_1'',
         [(''id'', Str ''txn_1''), (''userId'', Str ''alice''),
          (''amount'', Num (Fin 5)), (''type'', Str ''expense''),
          (''category'', Str ''Food''), (''importedAt'', Str ''T1'')]),
        (''budget:alice:txn_2'',
         [(''id'', Str ''txn_2''), (''category'', Str ''Food''),
          (''amount'', Num (Fin 100)), (''period'', Str ''weekly''),
          (''userId'', Str ''alice''), (''importedAt'', Str ''T2'')])]"
    by code_simp
  from import_writes_new_entities_for_caller [OF caller json, where
      ts = "[Obj [(''id'', Str ''txn_old''), (''userId'', Str ''bob''),
                 (''amount'', Num (Fin 5)), (''type'', Str ''expense''),
                 (''category'', Str ''Food'')]]"
      and bs = "[Obj [(''id'', Str ''b1''), (''category'', Str ''Food''),
                 (''amount'', Num (Fin 100)), (''period'', Str ''weekly'')]]"]
  have "fst (import_data alice_imports w_bob) = Resp 200 (import_ok 1 1)"
    by (simp add: fld_def w_bob_is_up)
  with caller after show ?thesis by simp
qed

subsection \<open>Export, then import\<close>





















end
